theory Spec2Isabelle
  imports Main
begin

section \<open>The booking screen of FisioVem (src/pages/BookingScreen.tsx)\<close>

text \<open>
  The component keeps ten pieces of React state, offers the next days through
  \<open>getNextDays\<close>, and books a consultation in the asynchronous handler
  \<open>handleBooking\<close>. The model below keeps the component's names. Where a name is a
  keyword or a constant of Isabelle it carries a suffix or a prefix: the state variable
  \<open>notes\<close> is \<open>notesText\<close>, the payload key \<open>notes\<close> is \<open>notes_field\<close>, the
  keys \<open>value\<close> and \<open>label\<close> of a day are \<open>day_value\<close> and \<open>day_label\<close>, and the
  fields of the physiotherapist and of the current user are prefixed.
\<close>

subsection \<open>Data\<close>

text \<open>The type of \<open>consultationType\<close>: the string literals \<open>'presencial' | 'online'\<close>.\<close>

datatype consultation_type = presencial | online

text \<open>
  The component's state, one field per \<open>useState\<close> (lines 11 to 20). Every text
  field is a string, so its JavaScript truthiness is being non-empty.
\<close>

record booking_screen =
  selectedDate :: string
  selectedTime :: string
  consultationType :: consultation_type
  addressStreet :: string
  addressNumber :: string
  addressNeighborhood :: string
  addressCity :: string
  addressState :: string
  notesText :: string
  isLoading :: bool

text \<open>
  \<open>Physiotherapist\<close> and the current user are declared in \<open>@/services/api\<close>, which
  is not part of the sources; only the fields that \<open>handleBooking\<close> reads are kept, and
  the types of the identifiers and of the price are parameters.
\<close>

record ('i, 'n) Physiotherapist =
  physio_id :: 'i
  physio_name :: string
  physio_specialty :: string
  physio_price :: 'n

record 'u User =
  user_id :: 'u

text \<open>
  The object literal passed to \<open>apiService.bookConsultation\<close> (lines 66 to 79). A key
  whose value is \<open>undefined\<close> is \<open>None\<close>.
\<close>

record ('u, 'i, 'n) consultation =
  patientId :: 'u
  physiotherapistId :: 'i
  physiotherapistName :: string
  date :: string
  time :: string
  type :: consultation_type
  specialty :: string
  address :: "string option"
  city :: "string option"
  state :: "string option"
  price :: 'n
  notes_field :: string

text \<open>
  What the promise of \<open>bookConsultation\<close> settles to: it resolves to an object with
  \<open>success\<close> and an optional \<open>error\<close>, or it rejects, which the \<open>await\<close> turns into
  an exception inside the \<open>try\<close>.
\<close>

record booking_result =
  success :: bool
  error :: "string option"

datatype port_outcome = Resolved booking_result | Rejected

text \<open>
  What the handler does to the world, in the order it does it: the calls of \<open>alert\<close>,
  \<open>setIsLoading\<close>, \<open>apiService.getCurrentUser\<close>, \<open>apiService.bookConsultation\<close> and
  \<open>onSuccess\<close>.
\<close>

datatype ('u, 'i, 'n) effect =
    Alert string
  | SetIsLoading bool
  | GetCurrentUser
  | BookConsultation "('u, 'i, 'n) consultation"
  | OnSuccess

text \<open>
  An \<open>async\<close> function runs synchronously up to its first \<open>await\<close>. It has then
  either returned or is suspended on the promise of the request it has sent.
\<close>

datatype ('u, 'i, 'n) suspension = Returned | Awaiting "('u, 'i, 'n) consultation"

subsection \<open>Messages\<close>

text \<open>
  The texts passed to \<open>alert\<close>. A letter outside ASCII is written as the bytes of its
  UTF-8 encoding.
\<close>

definition msg_select_date_time :: string where
  "msg_select_date_time =
     ''Por favor, selecione data e hor'' @ [CHR 0xC3, CHR 0xA1] @ ''rio''"

definition msg_fill_address :: string where
  "msg_fill_address =
     ''Por favor, preencha todos os campos de endere'' @ [CHR 0xC3, CHR 0xA7] @ ''o''"

definition msg_user_not_found :: string where
  "msg_user_not_found =
     ''Usu'' @ [CHR 0xC3, CHR 0xA1] @ ''rio n'' @ [CHR 0xC3, CHR 0xA3] @ ''o encontrado''"

definition msg_booked :: string where
  "msg_booked = ''Consulta agendada com sucesso!''"

definition msg_booking_error :: string where
  "msg_booking_error = ''Erro ao agendar consulta''"

definition msg_unexpected_error :: string where
  "msg_unexpected_error = ''Erro inesperado ao agendar consulta''"

subsection \<open>The state setters\<close>

text \<open>Each setter of \<open>useState\<close> replaces its own variable and nothing else.\<close>

definition setSelectedDate :: "string \<Rightarrow> booking_screen \<Rightarrow> booking_screen" where
  "setSelectedDate v s = s\<lparr>selectedDate := v\<rparr>"

definition setSelectedTime :: "string \<Rightarrow> booking_screen \<Rightarrow> booking_screen" where
  "setSelectedTime v s = s\<lparr>selectedTime := v\<rparr>"

definition setConsultationType :: "consultation_type \<Rightarrow> booking_screen \<Rightarrow> booking_screen" where
  "setConsultationType v s = s\<lparr>consultationType := v\<rparr>"

definition setAddressStreet :: "string \<Rightarrow> booking_screen \<Rightarrow> booking_screen" where
  "setAddressStreet v s = s\<lparr>addressStreet := v\<rparr>"

definition setAddressNumber :: "string \<Rightarrow> booking_screen \<Rightarrow> booking_screen" where
  "setAddressNumber v s = s\<lparr>addressNumber := v\<rparr>"

definition setAddressNeighborhood :: "string \<Rightarrow> booking_screen \<Rightarrow> booking_screen" where
  "setAddressNeighborhood v s = s\<lparr>addressNeighborhood := v\<rparr>"

definition setAddressCity :: "string \<Rightarrow> booking_screen \<Rightarrow> booking_screen" where
  "setAddressCity v s = s\<lparr>addressCity := v\<rparr>"

definition setAddressState :: "string \<Rightarrow> booking_screen \<Rightarrow> booking_screen" where
  "setAddressState v s = s\<lparr>addressState := v\<rparr>"

definition setNotes :: "string \<Rightarrow> booking_screen \<Rightarrow> booking_screen" where
  "setNotes v s = s\<lparr>notesText := v\<rparr>"

definition setIsLoading :: "bool \<Rightarrow> booking_screen \<Rightarrow> booking_screen" where
  "setIsLoading v s = s\<lparr>isLoading := v\<rparr>"

text \<open>The state of a freshly mounted component: the arguments of the ten \<open>useState\<close>.\<close>

definition initial_screen :: booking_screen where
  "initial_screen =
     \<lparr>selectedDate = [], selectedTime = [], consultationType = presencial,
      addressStreet = [], addressNumber = [], addressNeighborhood = [],
      addressCity = [], addressState = [], notesText = [], isLoading = False\<rparr>"

subsection \<open>The handler \<open>handleBooking\<close>\<close>

text \<open>
  Lines 44 to 79, up to the \<open>await\<close>: the two guards that alert and return, then
  \<open>setIsLoading(true)\<close>, then inside the \<open>try\<close> the lookup of the current user and
  either the alert and the \<open>return\<close> (after which the \<open>finally\<close> block runs) or the
  call of \<open>bookConsultation\<close>, on whose promise the handler is suspended. The result
  is the list of effects in order, the state after the setters that ran, and whether
  the handler has returned. The handler never reads \<open>isLoading\<close>. The calls of
  \<open>alert\<close>, \<open>getCurrentUser\<close> and \<open>onSuccess\<close> are taken to return normally; the
  one fault modelled is a rejected promise of \<open>bookConsultation\<close>.
\<close>

definition handleBooking_sync ::
  "('i, 'n) Physiotherapist \<Rightarrow> 'u User option \<Rightarrow> booking_screen \<Rightarrow>
     ('u, 'i, 'n) effect list \<times> booking_screen \<times> ('u, 'i, 'n) suspension" where
  "handleBooking_sync physiotherapist currentUser s =
     (if selectedDate s = [] \<or> selectedTime s = [] then
        ([Alert msg_select_date_time], s, Returned)
      else if consultationType s = presencial \<and>
              (addressStreet s = [] \<or> addressNumber s = [] \<or> addressNeighborhood s = [] \<or>
               addressCity s = [] \<or> addressState s = []) then
        ([Alert msg_fill_address], s, Returned)
      else
        (case currentUser of
           None \<Rightarrow>
             ([SetIsLoading True, GetCurrentUser, Alert msg_user_not_found, SetIsLoading False],
              setIsLoading False (setIsLoading True s), Returned)
         | Some u \<Rightarrow>
             (let request =
                \<lparr>patientId = user_id u,
                 physiotherapistId = physio_id physiotherapist,
                 physiotherapistName = physio_name physiotherapist,
                 date = selectedDate s,
                 time = selectedTime s,
                 type = consultationType s,
                 specialty = physio_specialty physiotherapist,
                 address =
                   (if consultationType s = presencial
                    then Some (addressStreet s @ '', '' @ addressNumber s @ '' - '' @
                               addressNeighborhood s)
                    else None),
                 city = (if consultationType s = presencial then Some (addressCity s) else None),
                 state = (if consultationType s = presencial then Some (addressState s) else None),
                 price = physio_price physiotherapist,
                 notes_field = notesText s\<rparr>
              in ([SetIsLoading True, GetCurrentUser, BookConsultation request],
                  setIsLoading True s, Awaiting request))))"

text \<open>
  Lines 81 to 91, after the \<open>await\<close>: the handler resumes with what the promise
  settled to, on the state as it is then (the setters may have run in between). A
  rejected promise throws and is caught. \<open>result.error || '...'\<close> takes the generic
  text when \<open>error\<close> is undefined and also when it is the empty string, which is
  falsy. The \<open>finally\<close> block ends every path.
\<close>

definition handleBooking_resume ::
  "port_outcome \<Rightarrow> booking_screen \<Rightarrow> ('u, 'i, 'n) effect list \<times> booking_screen" where
  "handleBooking_resume outcome s =
     (case outcome of
        Resolved result \<Rightarrow>
          (if success result then
             ([Alert msg_booked, OnSuccess, SetIsLoading False], setIsLoading False s)
           else
             ([Alert (case error result of
                        None \<Rightarrow> msg_booking_error
                      | Some m \<Rightarrow> (if m = [] then msg_booking_error else m)),
               SetIsLoading False], setIsLoading False s))
      | Rejected \<Rightarrow>
          ([Alert msg_unexpected_error, SetIsLoading False], setIsLoading False s))"

text \<open>
  A whole run of the handler when nothing else happens while the request is in flight:
  \<open>port\<close> gives what the promise of a request settles to.
\<close>

definition handleBooking ::
  "('i, 'n) Physiotherapist \<Rightarrow> 'u User option \<Rightarrow> (('u, 'i, 'n) consultation \<Rightarrow> port_outcome) \<Rightarrow>
     booking_screen \<Rightarrow> ('u, 'i, 'n) effect list \<times> booking_screen" where
  "handleBooking physiotherapist currentUser port s =
     (case handleBooking_sync physiotherapist currentUser s of
        (es, s', Returned) \<Rightarrow> (es, s')
      | (es, s', Awaiting request) \<Rightarrow>
          (case handleBooking_resume (port request) s' of
             (es', s'') \<Rightarrow> (es @ es', s'')))"

text \<open>The requests a list of effects sends to the port.\<close>

fun port_calls :: "('u, 'i, 'n) effect list \<Rightarrow> ('u, 'i, 'n) consultation list" where
  "port_calls [] = []"
| "port_calls (BookConsultation r # es) = r # port_calls es"
| "port_calls (e # es) = port_calls es"

subsection \<open>The button and the screen as a transition system\<close>

text \<open>
  Lines 293 to 299: the only caller of \<open>handleBooking\<close> is the click handler of the
  button, and the button is disabled by
  \<open>!selectedDate || !selectedTime || isLoading\<close>. A disabled button receives no
  click. Both the attribute and the handler are made by a render from the state that
  render saw.
\<close>

definition book_button_disabled :: "booking_screen \<Rightarrow> bool" where
  "book_button_disabled s = (selectedDate s = [] \<or> selectedTime s = [] \<or> isLoading s)"

definition click_book_button ::
  "('i, 'n) Physiotherapist \<Rightarrow> 'u User option \<Rightarrow> booking_screen \<Rightarrow>
     ('u, 'i, 'n) effect list \<times> booking_screen \<times> ('u, 'i, 'n) suspension" where
  "click_book_button physiotherapist currentUser s =
     (if book_button_disabled s then ([], s, Returned)
      else handleBooking_sync physiotherapist currentUser s)"

text \<open>
  A setter of \<open>useState\<close> does not change what the running handler or the buttons on
  the page see: it queues the new value, and the next render shows it. The calls of
  \<open>setIsLoading\<close> among the effects of a handler, applied in order to the queued state.
\<close>

fun apply_setters :: "('u, 'i, 'n) effect list \<Rightarrow> booking_screen \<Rightarrow> booking_screen" where
  "apply_setters [] s = s"
| "apply_setters (SetIsLoading b # es) s = apply_setters es (setIsLoading b s)"
| "apply_setters (e # es) s = apply_setters es s"

text \<open>
  The screen while it is mounted: \<open>rendered\<close> is the state the last render saw, from
  which the \<open>disabled\<close> attribute and the closure of the handler are made; \<open>ui\<close> is
  the state with every queued update applied, which the next render will see;
  \<open>in_flight\<close> are the requests sent to the port whose promises have not settled
  yet. \<open>raced\<close> is a history variable and no part of the component: it records that
  some click has run the handler while \<open>isLoading\<close> was already true in \<open>ui\<close>, that
  is, before the render that would have disabled the button.
\<close>

record ('u, 'i, 'n) screen =
  rendered :: booking_screen
  ui :: booking_screen
  in_flight :: "('u, 'i, 'n) consultation list"
  raced :: bool

fun suspended_on :: "('u, 'i, 'n) suspension \<Rightarrow> ('u, 'i, 'n) consultation list" where
  "suspended_on Returned = []"
| "suspended_on (Awaiting r) = [r]"

text \<open>
  The states the screen can be in. It starts in \<open>initial_screen\<close> with nothing in
  flight. The user edits any field to any text or picks a mode at any moment, also
  while a request is in flight; this queues the update. The component renders again at
  any moment. The user clicks the button when the last render left it enabled, whoever
  the current user is then: the handler reads the state of that render and its
  \<open>setIsLoading\<close> calls are queued. A promise in flight settles, to any outcome, which
  resumes its handler; it reads nothing of the state, and its \<open>setIsLoading(false)\<close>
  is queued.
\<close>

inductive reachable :: "('i, 'n) Physiotherapist \<Rightarrow> ('u, 'i, 'n) screen \<Rightarrow> bool"
  for physiotherapist :: "('i, 'n) Physiotherapist" where
  mounted: "reachable physiotherapist
     \<lparr>rendered = initial_screen, ui = initial_screen, in_flight = [], raced = False\<rparr>"
| pick_date: "reachable physiotherapist c \<Longrightarrow>
     reachable physiotherapist (c\<lparr>ui := setSelectedDate v (ui c)\<rparr>)"
| pick_time: "reachable physiotherapist c \<Longrightarrow>
     reachable physiotherapist (c\<lparr>ui := setSelectedTime v (ui c)\<rparr>)"
| pick_type: "reachable physiotherapist c \<Longrightarrow>
     reachable physiotherapist (c\<lparr>ui := setConsultationType m (ui c)\<rparr>)"
| edit_street: "reachable physiotherapist c \<Longrightarrow>
     reachable physiotherapist (c\<lparr>ui := setAddressStreet v (ui c)\<rparr>)"
| edit_number: "reachable physiotherapist c \<Longrightarrow>
     reachable physiotherapist (c\<lparr>ui := setAddressNumber v (ui c)\<rparr>)"
| edit_neighborhood: "reachable physiotherapist c \<Longrightarrow>
     reachable physiotherapist (c\<lparr>ui := setAddressNeighborhood v (ui c)\<rparr>)"
| edit_city: "reachable physiotherapist c \<Longrightarrow>
     reachable physiotherapist (c\<lparr>ui := setAddressCity v (ui c)\<rparr>)"
| edit_state: "reachable physiotherapist c \<Longrightarrow>
     reachable physiotherapist (c\<lparr>ui := setAddressState v (ui c)\<rparr>)"
| edit_notes: "reachable physiotherapist c \<Longrightarrow>
     reachable physiotherapist (c\<lparr>ui := setNotes v (ui c)\<rparr>)"
| render: "reachable physiotherapist c \<Longrightarrow>
     reachable physiotherapist (c\<lparr>rendered := ui c\<rparr>)"
| click: "reachable physiotherapist c \<Longrightarrow> \<not> book_button_disabled (rendered c) \<Longrightarrow>
     handleBooking_sync physiotherapist currentUser (rendered c) = (es, s', w) \<Longrightarrow>
     reachable physiotherapist
       \<lparr>rendered = rendered c, ui = apply_setters es (ui c),
        in_flight = in_flight c @ suspended_on w,
        raced = (raced c \<or> isLoading (ui c))\<rparr>"
| settle: "reachable physiotherapist c \<Longrightarrow> r \<in> set (in_flight c) \<Longrightarrow>
     handleBooking_resume outcome (ui c) = (es :: ('u, 'i, 'n) effect list, s') \<Longrightarrow>
     reachable physiotherapist
       \<lparr>rendered = rendered c, ui = s',
        in_flight = remove1 r (in_flight c), raced = raced c\<rparr>"

subsection \<open>The days offered: \<open>getNextDays\<close>\<close>

text \<open>
  \<open>getNextDays\<close> rests on the \<open>Date\<close> object of the JavaScript runtime, which is not
  code of the repository. Its arithmetic is modelled after ECMA-262 (section 21.4.1): a
  time value is a number of milliseconds since 1970-01-01T00:00Z, \<open>Day\<close> and
  \<open>TimeWithinDay\<close> split it, and the day number converts to and from a date of the
  proleptic Gregorian calendar. Months count from 1 here, as the ISO string prints
  them. The local time zone is a fixed offset \<open>tza\<close> in milliseconds (the standard's
  \<open>LocalTZA\<close>), so local time is \<open>t + tza\<close>; a zone that changes its offset within the
  days offered is outside the model.
\<close>

definition msPerDay :: int where
  "msPerDay = 86400000"

definition Day :: "int \<Rightarrow> int" where
  "Day t = t div msPerDay"

definition TimeWithinDay :: "int \<Rightarrow> int" where
  "TimeWithinDay t = t mod msPerDay"

text \<open>The date (year, month, day of the month) of a day number, and back.\<close>

definition civil_from_days :: "int \<Rightarrow> int \<times> int \<times> int" where
  "civil_from_days z =
     (let z' = z + 719468;
          era = z' div 146097;
          doe = z' - era * 146097;
          yoe = (doe - doe div 1460 + doe div 36524 - doe div 146096) div 365;
          doy = doe - (365 * yoe + yoe div 4 - yoe div 100);
          mp = (5 * doy + 2) div 153;
          d = doy - (153 * mp + 2) div 5 + 1;
          m = (if mp < 10 then mp + 3 else mp - 9);
          y = yoe + era * 400
      in (if m \<le> 2 then y + 1 else y, m, d))"

definition days_from_civil :: "int \<Rightarrow> int \<Rightarrow> int \<Rightarrow> int" where
  "days_from_civil y m d =
     (let y' = (if m \<le> 2 then y - 1 else y);
          era = y' div 400;
          yoe = y' - era * 400;
          mp = (m + 9) mod 12;
          doy = (153 * mp + 2) div 5 + d - 1;
          doe = yoe * 365 + yoe div 4 - yoe div 100 + doy
      in era * 146097 + doe - 719468)"

text \<open>\<open>date.getDate()\<close>: the day of the month in local time.\<close>

definition getDate :: "int \<Rightarrow> int \<Rightarrow> int" where
  "getDate tza t = (case civil_from_days (Day (t + tza)) of (y, m, d) \<Rightarrow> d)"

text \<open>
  \<open>date.setDate(dt)\<close>: the local year, month and time of day are kept and the day of
  the month becomes \<open>dt\<close>, which may run over the end of the month (\<open>MakeDay\<close> counts
  on from the first of the month). The result is converted back to UTC and clipped: a
  time value beyond 8.64e15 milliseconds is the invalid date, \<open>None\<close>.
\<close>

definition setDate :: "int \<Rightarrow> int \<Rightarrow> int \<Rightarrow> int option" where
  "setDate tza t dt =
     (case civil_from_days (Day (t + tza)) of
        (y, m, d) \<Rightarrow>
          (let newDate = (days_from_civil y m 1 + dt - 1) * msPerDay + TimeWithinDay (t + tza);
               u = newDate - tza
           in if \<bar>u\<bar> \<le> 8640000000000000 then Some u else None))"

text \<open>The last \<open>k\<close> decimal digits of a natural number, with leading zeros.\<close>

fun pad :: "nat \<Rightarrow> int \<Rightarrow> string" where
  "pad 0 n = []"
| "pad (Suc k) n = pad k (n div 10) @ [''0123456789'' ! nat (n mod 10)]"

text \<open>
  \<open>date.toISOString().split('T')[0]\<close>: the date of the time value in UTC, as
  \<open>YYYY-MM-DD\<close>, or with a sign and six digits for a year outside 0 to 9999.
\<close>

definition toISOString_date :: "int \<Rightarrow> string" where
  "toISOString_date t =
     (case civil_from_days (Day t) of
        (y, m, d) \<Rightarrow>
          (if 0 \<le> y \<and> y \<le> 9999 then pad 4 y
           else (if y < 0 then ''-'' else ''+'') @ pad 6 \<bar>y\<bar>) @
          ''-'' @ pad 2 m @ ''-'' @ pad 2 d)"

text \<open>An element of the array \<open>days\<close>.\<close>

record day =
  day_value :: string
  day_label :: string

datatype js_error = RangeError

text \<open>
  Lines 27 to 42. \<open>clock i\<close> is the time value \<open>new Date()\<close> gives in iteration \<open>i\<close>,
  and \<open>fmt\<close> stands for \<open>toLocaleDateString('pt-BR', ...)\<close>, a text made from the
  date in local time; the wording of the locale is not modelled. \<open>toISOString\<close> throws a
  \<open>RangeError\<close> on the invalid date, which ends the function. \<open>count\<close> is an integer.
\<close>

function getNextDays_loop ::
  "(int \<Rightarrow> int) \<Rightarrow> int \<Rightarrow> (int \<times> int \<times> int \<Rightarrow> string) \<Rightarrow> int \<Rightarrow> int \<Rightarrow> day list \<Rightarrow>
     js_error + day list" where
  "getNextDays_loop clock tza fmt count i days =
     (if i \<le> count then
        (case setDate tza (clock i) (getDate tza (clock i) + i) of
           None \<Rightarrow> Inl RangeError
         | Some t \<Rightarrow>
             getNextDays_loop clock tza fmt count (i + 1)
               (days @ [\<lparr>day_value = toISOString_date t,
                          day_label = fmt (civil_from_days (Day (t + tza)))\<rparr>]))
      else Inr days)"
  by pat_completeness auto
termination
  by (relation "measure (\<lambda>(clock, tza, fmt, count, i, days). nat (count + 1 - i))") auto

definition getNextDays ::
  "(int \<Rightarrow> int) \<Rightarrow> int \<Rightarrow> (int \<times> int \<times> int \<Rightarrow> string) \<Rightarrow> int \<Rightarrow> js_error + day list" where
  "getNextDays clock tza fmt count = getNextDays_loop clock tza fmt count 1 []"

subsection \<open>The spec's precondition\<close>

text \<open>
  \<open>canSubmit\<close> in the words of the specification: a date is selected, a time is
  selected, and the mode is remote or all five parts of the address are non-empty. The
  component has no such function; the lemmas below compare this predicate with the
  guards of \<open>handleBooking\<close> and with the button.
\<close>

definition canSubmit_spec :: "booking_screen \<Rightarrow> bool" where
  "canSubmit_spec s =
     (selectedDate s \<noteq> [] \<and> selectedTime s \<noteq> [] \<and>
      (consultationType s = online \<or>
       (addressStreet s \<noteq> [] \<and> addressNumber s \<noteq> [] \<and> addressNeighborhood s \<noteq> [] \<and>
        addressCity s \<noteq> [] \<and> addressState s \<noteq> [])))"

section \<open>Properties\<close>

declare getNextDays_loop.simps [simp del]

subsection \<open>Helper lemmas\<close>

lemmas setters =
  setSelectedDate_def setSelectedTime_def setConsultationType_def setAddressStreet_def
  setAddressNumber_def setAddressNeighborhood_def setAddressCity_def setAddressState_def
  setNotes_def setIsLoading_def

lemmas messages =
  msg_select_date_time_def msg_fill_address_def msg_user_not_found_def msg_booked_def
  msg_booking_error_def msg_unexpected_error_def

text \<open>The handler, by the three ways it can go.\<close>

lemma handleBooking_sync_invalid:
  assumes "\<not> canSubmit_spec s"
  shows "handleBooking_sync p u s =
           ([Alert (if selectedDate s = [] \<or> selectedTime s = []
                    then msg_select_date_time else msg_fill_address)], s, Returned)"
  using assms
  by (cases "consultationType s") (auto simp: handleBooking_sync_def canSubmit_spec_def)

lemma handleBooking_sync_no_user:
  assumes "canSubmit_spec s"
  shows "handleBooking_sync p None s =
           ([SetIsLoading True, GetCurrentUser, Alert msg_user_not_found, SetIsLoading False],
            s\<lparr>isLoading := False\<rparr>, Returned)"
  using assms
  by (auto simp: handleBooking_sync_def canSubmit_spec_def setIsLoading_def)

lemma handleBooking_sync_valid:
  assumes "canSubmit_spec s"
  shows "\<exists>r. handleBooking_sync p (Some u) s =
           ([SetIsLoading True, GetCurrentUser, BookConsultation r],
            s\<lparr>isLoading := True\<rparr>, Awaiting r)"
  using assms
  by (auto simp: handleBooking_sync_def canSubmit_spec_def setIsLoading_def Let_def)

lemma handleBooking_sync_port_calls:
  "port_calls (fst (handleBooking_sync p u s)) = suspended_on (snd (snd (handleBooking_sync p u s)))"
  by (auto simp: handleBooking_sync_def Let_def split: option.splits)

lemma handleBooking_sync_valid_hd:
  assumes "canSubmit_spec s"
  shows "hd (fst (handleBooking_sync p u s)) = SetIsLoading True"
  using assms
  by (auto simp: handleBooking_sync_def canSubmit_spec_def Let_def split: option.splits)

text \<open>The state a handler returns is its argument with its setter calls applied.\<close>

lemma handleBooking_sync_setters:
  "fst (snd (handleBooking_sync p u s)) = apply_setters (fst (handleBooking_sync p u s)) s"
  by (simp add: handleBooking_sync_def Let_def split: option.splits)

lemma handleBooking_resume_setters:
  "snd (handleBooking_resume outcome s :: ('u, 'i, 'n) effect list \<times> booking_screen) =
     apply_setters (fst (handleBooking_resume outcome s :: ('u, 'i, 'n) effect list \<times> booking_screen)) s"
  by (simp add: handleBooking_resume_def split: port_outcome.splits)

lemma handleBooking_sync_awaiting_queues_loading:
  assumes "handleBooking_sync p u s = (es, s', Awaiting r)"
  shows "isLoading (apply_setters es t)"
  using assms
  by (auto simp: handleBooking_sync_def setIsLoading_def Let_def split: if_splits option.splits)

lemma handleBooking_resume_not_loading:
  assumes "handleBooking_resume outcome s = (es, s')"
  shows "\<not> isLoading s'"
  using assms
  by (auto simp: handleBooking_resume_def setIsLoading_def split: port_outcome.splits if_splits)

lemma reachable_single_flight:
  assumes "reachable p c"
  shows "raced c \<or> (length (in_flight c) \<le> 1 \<and> (in_flight c = [] \<or> isLoading (ui c)))"
  using assms
proof (induction rule: reachable.induct)
  case mounted
  show ?case by simp
next
  case (render c)
  then show ?case by simp
next
  case (click c currentUser es s' w)
  show ?case
  proof (cases "raced c \<or> isLoading (ui c)")
    case True
    then show ?thesis by simp
  next
    case False
    with click.IH have none: "in_flight c = []" by simp
    show ?thesis
    proof (cases w)
      case Returned
      with none show ?thesis by simp
    next
      case (Awaiting r)
      with click.hyps(3) have "isLoading (apply_setters es (ui c))"
        using handleBooking_sync_awaiting_queues_loading by blast
      with none Awaiting show ?thesis by simp
    qed
  qed
next
  case (settle c r outcome es s')
  show ?case
  proof (cases "raced c")
    case True
    then show ?thesis by simp
  next
    case False
    with settle.IH settle.hyps(2) have "in_flight c = [r]"
      by (cases "in_flight c") auto
    then show ?thesis by simp
  qed
qed (simp_all add: setters)

subsection \<open>One submission in flight\<close>

text \<open>
  Claim C1, as the code has it. The handler itself has no guard on \<open>isLoading\<close>: the
  guard is the \<open>disabled\<close> attribute of the button, made at render time. On every
  state the screen can reach, once a render has seen \<open>isLoading\<close> true the button is
  disabled and a click on it has no effect and sends nothing. And on every run in which
  no click has run the handler while \<open>isLoading\<close> was already true, at most one
  request is in flight, and \<open>isLoading\<close> is true while one is.
\<close>

theorem single_flight_through_button:
  fixes c :: "('u, 'i, 'n) screen" and currentUser :: "'u User option"
  assumes "reachable physiotherapist c"
  shows "(isLoading (rendered c) \<longrightarrow>
            book_button_disabled (rendered c) \<and>
            click_book_button physiotherapist currentUser (rendered c) =
              ([], rendered c, Returned)) \<and>
         (\<not> raced c \<longrightarrow>
            length (in_flight c) \<le> 1 \<and> (in_flight c = [] \<or> isLoading (ui c)))"
proof -
  have shown: "isLoading (rendered c) \<longrightarrow>
      book_button_disabled (rendered c) \<and>
      click_book_button physiotherapist currentUser (rendered c) = ([], rendered c, Returned)"
    by (simp add: book_button_disabled_def click_book_button_def)
  from assms have "raced c \<or>
      (length (in_flight c) \<le> 1 \<and> (in_flight c = [] \<or> isLoading (ui c)))"
    by (rule reachable_single_flight)
  with shown show ?thesis by blast
qed

text \<open>
  A screen with a request in flight: the user picks a date, a time and the online
  mode, the component renders, the user clicks, and the component renders again; the
  theorem applies to the state after that render.
\<close>

theorem single_flight_through_button_witness:
  "(let p = \<lparr>physio_id = 7 :: nat, physio_name = ''Ana'', physio_specialty = ''Ortopedia'',
              physio_price = 120 :: nat\<rparr>;
        u = \<lparr>user_id = 42 :: nat\<rparr>;
        s = initial_screen\<lparr>selectedDate := ''2025-03-10'', selectedTime := ''09:00'',
              consultationType := online, isLoading := True\<rparr>;
        r = \<lparr>patientId = 42 :: nat, physiotherapistId = 7, physiotherapistName = ''Ana'',
             date = ''2025-03-10'', time = ''09:00'', type = online, specialty = ''Ortopedia'',
             address = None, city = None, state = None, price = 120, notes_field = []\<rparr>;
        c = \<lparr>rendered = s, ui = s, in_flight = [r], raced = False\<rparr>
    in reachable p c \<and> isLoading (rendered c) \<and> \<not> raced c \<and>
       length (in_flight c) \<le> 1 \<and> isLoading (ui c) \<and>
       book_button_disabled (rendered c) \<and>
       click_book_button p (Some u) (rendered c) = ([], rendered c, Returned))"
proof -
  define p where "p = \<lparr>physio_id = 7 :: nat, physio_name = ''Ana'',
    physio_specialty = ''Ortopedia'', physio_price = 120 :: nat\<rparr>"
  define u where "u = \<lparr>user_id = 42 :: nat\<rparr>"
  define s0 where "s0 = initial_screen\<lparr>selectedDate := ''2025-03-10'',
    selectedTime := ''09:00'', consultationType := online\<rparr>"
  define r where "r = \<lparr>patientId = 42 :: nat, physiotherapistId = 7 :: nat,
    physiotherapistName = ''Ana'', date = ''2025-03-10'', time = ''09:00'', type = online,
    specialty = ''Ortopedia'', address = None, city = None, state = None,
    price = 120 :: nat, notes_field = []\<rparr>"
  have "reachable p (\<lparr>rendered = initial_screen, ui = initial_screen, in_flight = [],
      raced = False\<rparr> :: (nat, nat, nat) screen)"
    by (rule reachable.mounted)
  from reachable.pick_date [OF this, of "''2025-03-10''"]
  have "reachable p (\<lparr>rendered = initial_screen,
      ui = initial_screen\<lparr>selectedDate := ''2025-03-10''\<rparr>,
      in_flight = [], raced = False\<rparr> :: (nat, nat, nat) screen)"
    by (simp add: setters)
  from reachable.pick_time [OF this, of "''09:00''"]
  have "reachable p (\<lparr>rendered = initial_screen,
      ui = initial_screen\<lparr>selectedDate := ''2025-03-10'', selectedTime := ''09:00''\<rparr>,
      in_flight = [], raced = False\<rparr> :: (nat, nat, nat) screen)"
    by (simp add: setters)
  from reachable.pick_type [OF this, of online]
  have "reachable p (\<lparr>rendered = initial_screen, ui = s0, in_flight = [],
      raced = False\<rparr> :: (nat, nat, nat) screen)"
    by (simp add: setters s0_def)
  from reachable.render [OF this]
  have before: "reachable p (\<lparr>rendered = s0, ui = s0, in_flight = [],
      raced = False\<rparr> :: (nat, nat, nat) screen)"
    by simp
  have enabled: "\<not> book_button_disabled (rendered (\<lparr>rendered = s0, ui = s0, in_flight = [],
      raced = False\<rparr> :: (nat, nat, nat) screen))"
    by (simp add: book_button_disabled_def s0_def initial_screen_def)
  have run: "handleBooking_sync p (Some u) (rendered (\<lparr>rendered = s0, ui = s0, in_flight = [],
      raced = False\<rparr> :: (nat, nat, nat) screen))
      = ([SetIsLoading True, GetCurrentUser, BookConsultation r], s0\<lparr>isLoading := True\<rparr>, Awaiting r)"
    by (simp add: handleBooking_sync_def s0_def initial_screen_def p_def u_def r_def
        setIsLoading_def Let_def)
  from reachable.click [OF before enabled run]
  have "reachable p \<lparr>rendered = s0, ui = s0\<lparr>isLoading := True\<rparr>, in_flight = [r],
      raced = False\<rparr>"
    by (simp add: setIsLoading_def s0_def initial_screen_def)
  from reachable.render [OF this]
  have after: "reachable p \<lparr>rendered = s0\<lparr>isLoading := True\<rparr>, ui = s0\<lparr>isLoading := True\<rparr>,
      in_flight = [r], raced = False\<rparr>"
    by simp
  from single_flight_through_button [OF after, of "Some u"] after
  show ?thesis
    by (simp add: Let_def p_def u_def s0_def r_def)
qed

text \<open>
  Claim C1 as stated fails: the user picks a date, a time and the online mode, the
  component renders, and the user clicks the button twice before the component renders
  again. Both clicks find the button enabled, the second call of the handler is not
  rejected, and two requests are in flight.
\<close>

theorem two_clicks_before_render_counterexample:
  "reachable
     \<lparr>physio_id = 7 :: nat, physio_name = ''Ana'', physio_specialty = ''Ortopedia'',
      physio_price = 120 :: nat\<rparr>
     \<lparr>rendered = initial_screen\<lparr>selectedDate := ''2025-03-10'', selectedTime := ''09:00'',
        consultationType := online\<rparr>,
      ui = initial_screen\<lparr>selectedDate := ''2025-03-10'', selectedTime := ''09:00'',
        consultationType := online, isLoading := True\<rparr>,
      in_flight =
        [\<lparr>patientId = 42 :: nat, physiotherapistId = 7, physiotherapistName = ''Ana'',
          date = ''2025-03-10'', time = ''09:00'', type = online, specialty = ''Ortopedia'',
          address = None, city = None, state = None, price = 120, notes_field = []\<rparr>,
         \<lparr>patientId = 42 :: nat, physiotherapistId = 7, physiotherapistName = ''Ana'',
          date = ''2025-03-10'', time = ''09:00'', type = online, specialty = ''Ortopedia'',
          address = None, city = None, state = None, price = 120, notes_field = []\<rparr>],
      raced = True\<rparr>"
proof -
  define p where "p = \<lparr>physio_id = 7 :: nat, physio_name = ''Ana'',
    physio_specialty = ''Ortopedia'', physio_price = 120 :: nat\<rparr>"
  define u where "u = \<lparr>user_id = 42 :: nat\<rparr>"
  define s0 where "s0 = initial_screen\<lparr>selectedDate := ''2025-03-10'',
    selectedTime := ''09:00'', consultationType := online\<rparr>"
  define r where "r = \<lparr>patientId = 42 :: nat, physiotherapistId = 7 :: nat,
    physiotherapistName = ''Ana'', date = ''2025-03-10'', time = ''09:00'', type = online,
    specialty = ''Ortopedia'', address = None, city = None, state = None,
    price = 120 :: nat, notes_field = []\<rparr>"
  have "reachable p (\<lparr>rendered = initial_screen, ui = initial_screen, in_flight = [],
      raced = False\<rparr> :: (nat, nat, nat) screen)"
    by (rule reachable.mounted)
  from reachable.pick_date [OF this, of "''2025-03-10''"]
  have "reachable p (\<lparr>rendered = initial_screen,
      ui = initial_screen\<lparr>selectedDate := ''2025-03-10''\<rparr>,
      in_flight = [], raced = False\<rparr> :: (nat, nat, nat) screen)"
    by (simp add: setters)
  from reachable.pick_time [OF this, of "''09:00''"]
  have "reachable p (\<lparr>rendered = initial_screen,
      ui = initial_screen\<lparr>selectedDate := ''2025-03-10'', selectedTime := ''09:00''\<rparr>,
      in_flight = [], raced = False\<rparr> :: (nat, nat, nat) screen)"
    by (simp add: setters)
  from reachable.pick_type [OF this, of online]
  have "reachable p (\<lparr>rendered = initial_screen, ui = s0, in_flight = [],
      raced = False\<rparr> :: (nat, nat, nat) screen)"
    by (simp add: setters s0_def)
  from reachable.render [OF this]
  have before: "reachable p (\<lparr>rendered = s0, ui = s0, in_flight = [],
      raced = False\<rparr> :: (nat, nat, nat) screen)"
    by simp
  have enabled: "\<not> book_button_disabled s0"
    by (simp add: book_button_disabled_def s0_def initial_screen_def)
  have run: "handleBooking_sync p (Some u) s0
      = ([SetIsLoading True, GetCurrentUser, BookConsultation r], s0\<lparr>isLoading := True\<rparr>, Awaiting r)"
    by (simp add: handleBooking_sync_def s0_def initial_screen_def p_def u_def r_def
        setIsLoading_def Let_def)
  from reachable.click [OF before, of "Some u" "[SetIsLoading True, GetCurrentUser, BookConsultation r]"
      "s0\<lparr>isLoading := True\<rparr>" "Awaiting r"] enabled run
  have once: "reachable p \<lparr>rendered = s0, ui = s0\<lparr>isLoading := True\<rparr>, in_flight = [r],
      raced = False\<rparr>"
    by (simp add: setIsLoading_def s0_def initial_screen_def)
  from reachable.click [OF once, of "Some u" "[SetIsLoading True, GetCurrentUser, BookConsultation r]"
      "s0\<lparr>isLoading := True\<rparr>" "Awaiting r"] enabled run
  have twice: "reachable p \<lparr>rendered = s0, ui = s0\<lparr>isLoading := True\<rparr>, in_flight = [r, r],
      raced = True\<rparr>"
    by (simp add: setIsLoading_def s0_def initial_screen_def)
  then show ?thesis
    by (simp add: p_def s0_def r_def)
qed

subsection \<open>Validation at the button and in the handler\<close>

text \<open>
  Claim C2, as the code has it. The button is disabled exactly when the date is empty,
  the time is empty or \<open>isLoading\<close> is true; it looks neither at the mode nor at the
  address, so replacing them leaves it as it was. It is therefore disabled only where
  the precondition fails or a submission is loading, and an enabled button says that a
  date and a time are selected and nothing is loading. The handler checks the whole
  precondition on every call, so a request reaches the port, by a click or by a direct
  call, only when the precondition holds.
\<close>

theorem validation_at_both_layers:
  "book_button_disabled s = (selectedDate s = [] \<or> selectedTime s = [] \<or> isLoading s) \<and>
   book_button_disabled
     (s\<lparr>consultationType := mode, addressStreet := street, addressNumber := number,
        addressNeighborhood := neighborhood, addressCity := town, addressState := region\<rparr>)
     = book_button_disabled s \<and>
   (book_button_disabled s \<longrightarrow> \<not> canSubmit_spec s \<or> isLoading s) \<and>
   (\<not> book_button_disabled s \<longrightarrow>
      selectedDate s \<noteq> [] \<and> selectedTime s \<noteq> [] \<and> \<not> isLoading s) \<and>
   (\<not> book_button_disabled s \<and> \<not> canSubmit_spec s \<longrightarrow>
      click_book_button p u s = ([Alert msg_fill_address], s, Returned)) \<and>
   (port_calls (fst (handleBooking_sync p u s)) \<noteq> [] \<longrightarrow> canSubmit_spec s) \<and>
   (port_calls (fst (click_book_button p u s)) \<noteq> [] \<longrightarrow> canSubmit_spec s)"
proof -
  have exact: "book_button_disabled s =
      (selectedDate s = [] \<or> selectedTime s = [] \<or> isLoading s)"
    by (simp add: book_button_disabled_def)
  have frame: "book_button_disabled
     (s\<lparr>consultationType := mode, addressStreet := street, addressNumber := number,
        addressNeighborhood := neighborhood, addressCity := town, addressState := region\<rparr>)
     = book_button_disabled s"
    by (simp add: book_button_disabled_def)
  have disabled: "book_button_disabled s \<longrightarrow> \<not> canSubmit_spec s \<or> isLoading s"
    by (auto simp: book_button_disabled_def canSubmit_spec_def)
  have enabled: "\<not> book_button_disabled s \<longrightarrow>
      selectedDate s \<noteq> [] \<and> selectedTime s \<noteq> [] \<and> \<not> isLoading s"
    by (simp add: book_button_disabled_def)
  have alert: "\<not> book_button_disabled s \<and> \<not> canSubmit_spec s \<longrightarrow>
      click_book_button p u s = ([Alert msg_fill_address], s, Returned)"
    by (auto simp: click_book_button_def book_button_disabled_def handleBooking_sync_invalid)
  have direct: "port_calls (fst (handleBooking_sync p u s)) \<noteq> [] \<longrightarrow> canSubmit_spec s"
  proof
    assume sent: "port_calls (fst (handleBooking_sync p u s)) \<noteq> []"
    show "canSubmit_spec s"
    proof (rule ccontr)
      assume "\<not> canSubmit_spec s"
      then have "port_calls (fst (handleBooking_sync p u s)) = []"
        by (simp add: handleBooking_sync_invalid)
      with sent show False by simp
    qed
  qed
  then have click: "port_calls (fst (click_book_button p u s)) \<noteq> [] \<longrightarrow> canSubmit_spec s"
    by (simp add: click_book_button_def)
  from exact frame disabled enabled alert direct click show ?thesis
    by (intro conjI) assumption+
qed

text \<open>
  Two drafts with date and time selected and nothing loading, for a home visit: one
  with an empty address, where the enabled button leads to the alert, and one with a
  full address, where the click sends the request.
\<close>

theorem validation_at_both_layers_witness:
  "(let p = \<lparr>physio_id = 7 :: nat, physio_name = ''Ana'', physio_specialty = ''Ortopedia'',
              physio_price = 120 :: nat\<rparr>;
        u = Some \<lparr>user_id = 42 :: nat\<rparr>;
        s = initial_screen\<lparr>selectedDate := ''2025-03-10'', selectedTime := ''09:00''\<rparr>;
        s' = s\<lparr>addressStreet := ''Rua das Flores'', addressNumber := ''10'',
               addressNeighborhood := ''Centro'', addressCity := ''Porto Alegre'',
               addressState := ''RS''\<rparr>
    in \<not> book_button_disabled s \<and> \<not> canSubmit_spec s \<and>
       click_book_button p u s = ([Alert msg_fill_address], s, Returned) \<and>
       port_calls (fst (click_book_button p u s')) \<noteq> [] \<and> canSubmit_spec s' \<and>
       book_button_disabled s' = book_button_disabled s \<and>
       book_button_disabled (s'\<lparr>isLoading := True\<rparr>) \<and> isLoading (s'\<lparr>isLoading := True\<rparr>))"
proof -
  define p where "p = \<lparr>physio_id = 7 :: nat, physio_name = ''Ana'',
    physio_specialty = ''Ortopedia'', physio_price = 120 :: nat\<rparr>"
  define u where "u = Some \<lparr>user_id = 42 :: nat\<rparr>"
  define s where "s = initial_screen\<lparr>selectedDate := ''2025-03-10'',
    selectedTime := ''09:00''\<rparr>"
  define s' where "s' = s\<lparr>addressStreet := ''Rua das Flores'', addressNumber := ''10'',
    addressNeighborhood := ''Centro'', addressCity := ''Porto Alegre'',
    addressState := ''RS''\<rparr>"
  have a: "\<not> book_button_disabled s" "\<not> canSubmit_spec s"
    by (simp_all add: s_def initial_screen_def book_button_disabled_def canSubmit_spec_def)
  have b: "port_calls (fst (click_book_button p u s')) \<noteq> []"
    by (simp add: s'_def s_def u_def initial_screen_def click_book_button_def
        book_button_disabled_def handleBooking_sync_def Let_def)
  have c: "book_button_disabled (s'\<lparr>isLoading := True\<rparr>)"
    by (simp add: book_button_disabled_def)
  have d: "s' = s\<lparr>consultationType := presencial, addressStreet := ''Rua das Flores'',
      addressNumber := ''10'', addressNeighborhood := ''Centro'',
      addressCity := ''Porto Alegre'', addressState := ''RS''\<rparr>"
    by (simp add: s'_def s_def initial_screen_def)
  have e: "book_button_disabled s' = book_button_disabled s"
    unfolding d by (rule conjunct1 [OF conjunct2 [OF validation_at_both_layers]])
  note at_s = validation_at_both_layers [where s = s and p = p and u = u
      and mode = presencial and street = "[]" and number = "[]" and neighborhood = "[]"
      and town = "[]" and region = "[]"]
  note at_s' = validation_at_both_layers [where s = s' and p = p and u = u
      and mode = presencial and street = "[]" and number = "[]" and neighborhood = "[]"
      and town = "[]" and region = "[]"]
  from a at_s have alerted: "click_book_button p u s = ([Alert msg_fill_address], s, Returned)"
    by blast
  from b at_s' have valid: "canSubmit_spec s'"
    by blast
  from a b c e alerted valid
  have "\<not> book_button_disabled s \<and> \<not> canSubmit_spec s \<and>
       click_book_button p u s = ([Alert msg_fill_address], s, Returned) \<and>
       port_calls (fst (click_book_button p u s')) \<noteq> [] \<and> canSubmit_spec s' \<and>
       book_button_disabled s' = book_button_disabled s \<and>
       book_button_disabled (s'\<lparr>isLoading := True\<rparr>) \<and> isLoading (s'\<lparr>isLoading := True\<rparr>)"
    by simp
  then show ?thesis
    by (simp add: Let_def p_def u_def s_def s'_def)
qed

text \<open>
  Claim C2 as stated fails: with a date and a time selected, the home visit mode and an
  empty address, the precondition is false and the button is enabled.
\<close>

theorem button_ignores_address_counterexample:
  "\<not> canSubmit_spec (initial_screen\<lparr>selectedDate := ''2025-03-10'', selectedTime := ''09:00''\<rparr>) \<and>
   \<not> book_button_disabled (initial_screen\<lparr>selectedDate := ''2025-03-10'', selectedTime := ''09:00''\<rparr>)"
  by (simp add: initial_screen_def canSubmit_spec_def book_button_disabled_def)

subsection \<open>The precondition of a submission\<close>

text \<open>
  Claim C3, as the code has it. For a home visit (\<open>presencial\<close>), the handler
  passes its guards exactly when a date and a time are selected and the five parts of
  the address are non-empty. Where it does not pass, the whole run of the handler is
  one alert (to select date and time, or to fill in the address) and a return: nothing
  is sent to the port and every state variable is left as it was, since the component
  has no state that records a failure. For an online consultation the guards look at
  the date and the time only, and replacing the five parts of the address changes
  neither the effects of the handler nor the request it is suspended on.
\<close>

theorem precondition_of_submit:
  "(consultationType s = presencial \<longrightarrow>
      (handleBooking_sync p u s \<in>
         {([Alert msg_select_date_time], s, Returned), ([Alert msg_fill_address], s, Returned)})
      = (\<not> (selectedDate s \<noteq> [] \<and> selectedTime s \<noteq> [] \<and> addressStreet s \<noteq> [] \<and>
            addressNumber s \<noteq> [] \<and> addressNeighborhood s \<noteq> [] \<and> addressCity s \<noteq> [] \<and>
            addressState s \<noteq> []))) \<and>
   (handleBooking_sync p u s \<in>
      {([Alert msg_select_date_time], s, Returned), ([Alert msg_fill_address], s, Returned)}
    \<longrightarrow> handleBooking p u port s =
          ([Alert (if selectedDate s = [] \<or> selectedTime s = []
                   then msg_select_date_time else msg_fill_address)], s) \<and>
        port_calls (fst (handleBooking_sync p u s)) = [] \<and>
        port_calls (fst (handleBooking p u port s)) = [] \<and>
        snd (handleBooking p u port s) = s) \<and>
   (consultationType s = online \<longrightarrow>
      (handleBooking_sync p u s \<in>
         {([Alert msg_select_date_time], s, Returned), ([Alert msg_fill_address], s, Returned)})
      = (\<not> (selectedDate s \<noteq> [] \<and> selectedTime s \<noteq> [])) \<and>
      fst (handleBooking_sync p u
             (s\<lparr>addressStreet := street, addressNumber := number, addressNeighborhood := neighborhood,
                addressCity := town, addressState := region\<rparr>))
      = fst (handleBooking_sync p u s) \<and>
      snd (snd (handleBooking_sync p u
             (s\<lparr>addressStreet := street, addressNumber := number, addressNeighborhood := neighborhood,
                addressCity := town, addressState := region\<rparr>)))
      = snd (snd (handleBooking_sync p u s)))"
proof -
  let ?rejected = "handleBooking_sync p u s \<in>
    {([Alert msg_select_date_time], s, Returned), ([Alert msg_fill_address], s, Returned)}"
  have passes: "\<not> ?rejected" if ok: "canSubmit_spec s"
  proof
    assume ?rejected
    then have "hd (fst (handleBooking_sync p u s)) = Alert msg_select_date_time \<or>
               hd (fst (handleBooking_sync p u s)) = Alert msg_fill_address"
      by auto
    with handleBooking_sync_valid_hd [OF ok, of p u] show False by simp
  qed
  have fails: "\<not> canSubmit_spec s \<Longrightarrow> ?rejected"
    by (simp add: handleBooking_sync_invalid)
  have iff: "?rejected = (\<not> canSubmit_spec s)"
    using passes fails by blast
  have home: "consultationType s = presencial \<longrightarrow>
      ?rejected = (\<not> (selectedDate s \<noteq> [] \<and> selectedTime s \<noteq> [] \<and> addressStreet s \<noteq> [] \<and>
            addressNumber s \<noteq> [] \<and> addressNeighborhood s \<noteq> [] \<and> addressCity s \<noteq> [] \<and>
            addressState s \<noteq> []))"
    unfolding iff by (simp add: canSubmit_spec_def)
  have quiet: "?rejected \<longrightarrow>
        handleBooking p u port s =
          ([Alert (if selectedDate s = [] \<or> selectedTime s = []
                   then msg_select_date_time else msg_fill_address)], s) \<and>
        port_calls (fst (handleBooking_sync p u s)) = [] \<and>
        port_calls (fst (handleBooking p u port s)) = [] \<and>
        snd (handleBooking p u port s) = s"
  proof
    assume ?rejected
    with iff have "\<not> canSubmit_spec s" by simp
    then have "handleBooking_sync p u s =
        ([Alert (if selectedDate s = [] \<or> selectedTime s = []
                 then msg_select_date_time else msg_fill_address)], s, Returned)"
      by (rule handleBooking_sync_invalid)
    then show "handleBooking p u port s =
          ([Alert (if selectedDate s = [] \<or> selectedTime s = []
                   then msg_select_date_time else msg_fill_address)], s) \<and>
        port_calls (fst (handleBooking_sync p u s)) = [] \<and>
        port_calls (fst (handleBooking p u port s)) = [] \<and>
        snd (handleBooking p u port s) = s"
      by (simp add: handleBooking_def)
  qed
  have remote_guard: "consultationType s = online \<longrightarrow>
      ?rejected = (\<not> (selectedDate s \<noteq> [] \<and> selectedTime s \<noteq> []))"
    unfolding iff by (simp add: canSubmit_spec_def)
  have remote_frame: "consultationType s = online \<longrightarrow>
      fst (handleBooking_sync p u
             (s\<lparr>addressStreet := street, addressNumber := number, addressNeighborhood := neighborhood,
                addressCity := town, addressState := region\<rparr>))
      = fst (handleBooking_sync p u s) \<and>
      snd (snd (handleBooking_sync p u
             (s\<lparr>addressStreet := street, addressNumber := number, addressNeighborhood := neighborhood,
                addressCity := town, addressState := region\<rparr>)))
      = snd (snd (handleBooking_sync p u s))"
    by (simp add: handleBooking_sync_def Let_def split: option.splits)
  from home quiet remote_guard remote_frame show ?thesis by blast
qed

text \<open>
  The scenario of the specification (a home visit on 2025-03-10 at 09:00 with an
  incomplete address) and an online draft whose latent address is replaced.
\<close>

theorem precondition_of_submit_witness:
  "(let p = \<lparr>physio_id = 7 :: nat, physio_name = ''Ana'', physio_specialty = ''Ortopedia'',
              physio_price = 120 :: nat\<rparr>;
        u = Some \<lparr>user_id = 42 :: nat\<rparr>;
        port = (\<lambda>r. Resolved \<lparr>success = True, error = None\<rparr>);
        s = initial_screen\<lparr>selectedDate := ''2025-03-10'', selectedTime := ''09:00'',
              addressStreet := ''Rua das Flores''\<rparr>;
        t = s\<lparr>consultationType := online\<rparr>
    in consultationType s = presencial \<and>
       handleBooking_sync p u s = ([Alert msg_fill_address], s, Returned) \<and>
       handleBooking p u port s = ([Alert msg_fill_address], s) \<and>
       port_calls (fst (handleBooking p u port s)) = [] \<and>
       snd (handleBooking p u port s) = s \<and>
       consultationType t = online \<and>
       fst (handleBooking_sync p u
              (t\<lparr>addressStreet := [], addressNumber := ''10'', addressNeighborhood := [],
                 addressCity := ''Porto Alegre'', addressState := []\<rparr>))
       = fst (handleBooking_sync p u t))"
proof -
  define p where "p = \<lparr>physio_id = 7 :: nat, physio_name = ''Ana'',
    physio_specialty = ''Ortopedia'', physio_price = 120 :: nat\<rparr>"
  define u where "u = Some \<lparr>user_id = 42 :: nat\<rparr>"
  define port where "port = (\<lambda>r :: (nat, nat, nat) consultation.
    Resolved \<lparr>success = True, error = None\<rparr>)"
  define s where "s = initial_screen\<lparr>selectedDate := ''2025-03-10'',
    selectedTime := ''09:00'', addressStreet := ''Rua das Flores''\<rparr>"
  define t where "t = s\<lparr>consultationType := online\<rparr>"
  have home: "consultationType s = presencial"
    by (simp add: s_def initial_screen_def)
  have rejected: "handleBooking_sync p u s = ([Alert msg_fill_address], s, Returned)"
    by (simp add: s_def initial_screen_def handleBooking_sync_def)
  have remote: "consultationType t = online"
    by (simp add: t_def)
  have dated: "selectedDate s \<noteq> []" "selectedTime s \<noteq> []"
    by (simp_all add: s_def)
  from home rejected remote dated
    precondition_of_submit [where s = s and p = p and u = u and port = port]
    precondition_of_submit [where s = t and p = p and u = u and port = port and street = "[]"
      and number = "''10''" and neighborhood = "[]" and town = "''Porto Alegre''" and region = "[]"]
  have "consultationType s = presencial \<and>
       handleBooking_sync p u s = ([Alert msg_fill_address], s, Returned) \<and>
       handleBooking p u port s = ([Alert msg_fill_address], s) \<and>
       port_calls (fst (handleBooking p u port s)) = [] \<and>
       snd (handleBooking p u port s) = s \<and>
       consultationType t = online \<and>
       fst (handleBooking_sync p u
              (t\<lparr>addressStreet := [], addressNumber := ''10'', addressNeighborhood := [],
                 addressCity := ''Porto Alegre'', addressState := []\<rparr>))
       = fst (handleBooking_sync p u t)"
    by simp
  then show ?thesis
    by (simp add: Let_def p_def u_def port_def s_def t_def)
qed

text \<open>
  Claim C3 as stated fails on the state: in the scenario of the specification (a home
  visit on 2025-03-10 at 09:00 with an incomplete address) the call does not set any
  state to failed. Its one effect is the alert, and the state after it is the state
  before it.
\<close>

theorem rejection_sets_no_state_counterexample:
  "handleBooking
     \<lparr>physio_id = 7 :: nat, physio_name = ''Ana'', physio_specialty = ''Ortopedia'',
      physio_price = 120 :: nat\<rparr>
     (Some \<lparr>user_id = 42 :: nat\<rparr>)
     (\<lambda>r. Resolved \<lparr>success = True, error = None\<rparr>)
     (initial_screen\<lparr>selectedDate := ''2025-03-10'', selectedTime := ''09:00'',
        addressStreet := ''Rua das Flores''\<rparr>)
   = ([Alert msg_fill_address],
      initial_screen\<lparr>selectedDate := ''2025-03-10'', selectedTime := ''09:00'',
        addressStreet := ''Rua das Flores''\<rparr>)"
  by (simp add: handleBooking_def handleBooking_sync_def initial_screen_def)

subsection \<open>No current user\<close>

text \<open>
  Claim C5, as the code has it. On a draft that passes the guards, with no current
  user, the handler first sets \<open>isLoading\<close> to true, then looks the user up, alerts
  that the user was not found and returns through the \<open>finally\<close> block, which sets
  \<open>isLoading\<close> back to false. Nothing is sent to the port, the handler is not
  suspended, and the state it leaves differs from the one it found in \<open>isLoading\<close>
  at most, which is false.
\<close>

theorem no_user_no_request:
  fixes port :: "('u, 'i, 'n) consultation \<Rightarrow> port_outcome"
  assumes "canSubmit_spec s"
  shows "handleBooking_sync p (None :: 'u User option) s =
           ([SetIsLoading True, GetCurrentUser, Alert msg_user_not_found, SetIsLoading False],
            s\<lparr>isLoading := False\<rparr>, Returned) \<and>
         handleBooking p None port s =
           ([SetIsLoading True, GetCurrentUser, Alert msg_user_not_found, SetIsLoading False],
            s\<lparr>isLoading := False\<rparr>) \<and>
         port_calls (fst (handleBooking p None port s)) = []"
  using assms by (simp add: handleBooking_def handleBooking_sync_no_user)

theorem no_user_no_request_witness:
  "(let p = \<lparr>physio_id = 7 :: nat, physio_name = ''Ana'', physio_specialty = ''Ortopedia'',
              physio_price = 120 :: nat\<rparr>;
        port = (\<lambda>r :: (nat, nat, nat) consultation. Resolved \<lparr>success = True, error = None\<rparr>);
        s = initial_screen\<lparr>selectedDate := ''2025-03-10'', selectedTime := ''09:00'',
              consultationType := online\<rparr>
    in canSubmit_spec s \<and>
       handleBooking p None port s =
         ([SetIsLoading True, GetCurrentUser, Alert msg_user_not_found, SetIsLoading False],
          s\<lparr>isLoading := False\<rparr>) \<and>
       port_calls (fst (handleBooking p None port s)) = [])"
proof -
  define p where "p = \<lparr>physio_id = 7 :: nat, physio_name = ''Ana'',
    physio_specialty = ''Ortopedia'', physio_price = 120 :: nat\<rparr>"
  define port where "port = (\<lambda>r :: (nat, nat, nat) consultation.
    Resolved \<lparr>success = True, error = None\<rparr>)"
  define s where "s = initial_screen\<lparr>selectedDate := ''2025-03-10'',
    selectedTime := ''09:00'', consultationType := online\<rparr>"
  have valid: "canSubmit_spec s"
    by (simp add: s_def initial_screen_def canSubmit_spec_def)
  from valid no_user_no_request [OF valid, of p port]
  have "canSubmit_spec s \<and>
       handleBooking p None port s =
         ([SetIsLoading True, GetCurrentUser, Alert msg_user_not_found, SetIsLoading False],
          s\<lparr>isLoading := False\<rparr>) \<and>
       port_calls (fst (handleBooking p None port s)) = []"
    by simp
  then show ?thesis
    by (simp add: Let_def p_def port_def s_def)
qed

text \<open>
  Claim C5 as stated fails on the order: the first effect of the handler, before the
  lookup of the user, is \<open>setIsLoading(true)\<close>.
\<close>

theorem loading_precedes_user_lookup_counterexample:
  "takeWhile (\<lambda>e. e \<noteq> GetCurrentUser)
     (fst (handleBooking_sync
        \<lparr>physio_id = 7 :: nat, physio_name = ''Ana'', physio_specialty = ''Ortopedia'',
         physio_price = 120 :: nat\<rparr>
        (None :: nat User option)
        (initial_screen\<lparr>selectedDate := ''2025-03-10'', selectedTime := ''09:00'',
           consultationType := online\<rparr>)))
   = [SetIsLoading True]"
  by (simp add: handleBooking_sync_def initial_screen_def)

subsection \<open>The request\<close>

text \<open>
  Claim C7. On a draft that passes the guards, with a current user, exactly one
  request goes to the port. It carries the identifier of the user, the identifier,
  name, specialty and price of the physiotherapist, and the date, the time and the
  mode selected. Its address, city and state are present exactly for a home visit and
  are undefined, not empty strings, for an online consultation. Its notes are the
  notes as typed, the empty string included.
\<close>

theorem request_contents:
  assumes "canSubmit_spec s"
  shows "\<exists>r. port_calls (fst (handleBooking_sync p (Some u) s)) = [r] \<and>
           snd (snd (handleBooking_sync p (Some u) s)) = Awaiting r \<and>
           patientId r = user_id u \<and>
           physiotherapistId r = physio_id p \<and>
           physiotherapistName r = physio_name p \<and>
           specialty r = physio_specialty p \<and>
           price r = physio_price p \<and>
           date r = selectedDate s \<and> time r = selectedTime s \<and>
           type r = consultationType s \<and>
           (address r \<noteq> None) = (consultationType s = presencial) \<and>
           (city r \<noteq> None) = (consultationType s = presencial) \<and>
           (state r \<noteq> None) = (consultationType s = presencial) \<and>
           (consultationType s = online \<longrightarrow>
              address r = None \<and> city r = None \<and> state r = None) \<and>
           notes_field r = notesText s"
  using assms
  by (auto simp: handleBooking_sync_def canSubmit_spec_def Let_def)

text \<open>The online scenario of the specification, with empty notes.\<close>

theorem request_contents_witness:
  "(let p = \<lparr>physio_id = 7 :: nat, physio_name = ''Ana'', physio_specialty = ''Ortopedia'',
              physio_price = 120 :: nat\<rparr>;
        u = \<lparr>user_id = 42 :: nat\<rparr>;
        s = initial_screen\<lparr>selectedDate := ''2025-03-10'', selectedTime := ''09:00'',
              consultationType := online\<rparr>
    in canSubmit_spec s \<and>
       (\<exists>r. port_calls (fst (handleBooking_sync p (Some u) s)) = [r] \<and>
            patientId r = 42 \<and> physiotherapistId r = 7 \<and> type r = online \<and>
            address r = None \<and> city r = None \<and> state r = None \<and> notes_field r = []))"
proof -
  define p where "p = \<lparr>physio_id = 7 :: nat, physio_name = ''Ana'',
    physio_specialty = ''Ortopedia'', physio_price = 120 :: nat\<rparr>"
  define u where "u = \<lparr>user_id = 42 :: nat\<rparr>"
  define s where "s = initial_screen\<lparr>selectedDate := ''2025-03-10'',
    selectedTime := ''09:00'', consultationType := online\<rparr>"
  have valid: "canSubmit_spec s"
    by (simp add: s_def initial_screen_def canSubmit_spec_def)
  have fields: "consultationType s = online" "notesText s = []" "user_id u = 42" "physio_id p = 7"
    by (simp_all add: s_def initial_screen_def u_def p_def)
  from request_contents [OF valid, of p u]
  obtain r where "port_calls (fst (handleBooking_sync p (Some u) s)) = [r]"
    and "patientId r = user_id u" and "physiotherapistId r = physio_id p"
    and "type r = consultationType s"
    and "consultationType s = online \<longrightarrow> address r = None \<and> city r = None \<and> state r = None"
    and "notes_field r = notesText s"
    by blast
  with fields have "\<exists>r. port_calls (fst (handleBooking_sync p (Some u) s)) = [r] \<and>
            patientId r = 42 \<and> physiotherapistId r = 7 \<and> type r = online \<and>
            address r = None \<and> city r = None \<and> state r = None \<and> notes_field r = []"
    by auto
  with valid show ?thesis
    by (simp add: Let_def p_def u_def s_def)
qed

subsection \<open>A failed submission\<close>

text \<open>
  Claim C8, as the code has it. On a draft that passes the guards, with a current
  user, when the port reports no success or its promise rejects, the run of the
  handler ends with one alert and with \<open>isLoading\<close> false, and \<open>onSuccess\<close> is not
  called. The alert shows the port's \<open>error\<close> when it is present and not the empty
  string, the text \<open>Erro ao agendar consulta\<close> when it is absent or empty, and the
  text \<open>Erro inesperado ao agendar consulta\<close> when the promise rejects.
\<close>

theorem failed_submission:
  assumes "canSubmit_spec s"
    and "handleBooking_sync p (Some u) s = (es, s', Awaiting r)"
    and "port r = Rejected \<or> (\<exists>res. port r = Resolved res \<and> \<not> success res)"
  shows "handleBooking p (Some u) port s =
           ([SetIsLoading True, GetCurrentUser, BookConsultation r,
             Alert (case port r of
                      Rejected \<Rightarrow> msg_unexpected_error
                    | Resolved res \<Rightarrow>
                        (case error res of
                           None \<Rightarrow> msg_booking_error
                         | Some m \<Rightarrow> if m = [] then msg_booking_error else m)),
             SetIsLoading False],
            s\<lparr>isLoading := False\<rparr>) \<and>
         OnSuccess \<notin> set (fst (handleBooking p (Some u) port s))"
proof -
  from handleBooking_sync_valid [OF assms(1), of p u] assms(2)
  have sync: "handleBooking_sync p (Some u) s =
      ([SetIsLoading True, GetCurrentUser, BookConsultation r], s\<lparr>isLoading := True\<rparr>, Awaiting r)"
    by auto
  from assms(3) show ?thesis
  proof
    assume "port r = Rejected"
    with sync show ?thesis
      by (simp add: handleBooking_def handleBooking_resume_def setIsLoading_def)
  next
    assume "\<exists>res. port r = Resolved res \<and> \<not> success res"
    then obtain res where "port r = Resolved res" and "\<not> success res" by blast
    with sync show ?thesis
      by (simp add: handleBooking_def handleBooking_resume_def setIsLoading_def)
  qed
qed

text \<open>
  The scenario of the specification: the port answers
  \<open>{success: false, error: "slot taken"}\<close>; and a port whose promise rejects.
\<close>

theorem failed_submission_witness:
  "(let p = \<lparr>physio_id = 7 :: nat, physio_name = ''Ana'', physio_specialty = ''Ortopedia'',
              physio_price = 120 :: nat\<rparr>;
        u = \<lparr>user_id = 42 :: nat\<rparr>;
        s = initial_screen\<lparr>selectedDate := ''2025-03-10'', selectedTime := ''09:00'',
              consultationType := online\<rparr>;
        r = \<lparr>patientId = 42 :: nat, physiotherapistId = 7 :: nat, physiotherapistName = ''Ana'',
             date = ''2025-03-10'', time = ''09:00'', type = online, specialty = ''Ortopedia'',
             address = None, city = None, state = None, price = 120 :: nat, notes_field = []\<rparr>
    in canSubmit_spec s \<and>
       handleBooking p (Some u) (\<lambda>r. Resolved \<lparr>success = False, error = Some ''slot taken''\<rparr>) s =
         ([SetIsLoading True, GetCurrentUser, BookConsultation r, Alert ''slot taken'',
           SetIsLoading False], s\<lparr>isLoading := False\<rparr>) \<and>
       handleBooking p (Some u) (\<lambda>r. Rejected) s =
         ([SetIsLoading True, GetCurrentUser, BookConsultation r, Alert msg_unexpected_error,
           SetIsLoading False], s\<lparr>isLoading := False\<rparr>))"
proof -
  define p where "p = \<lparr>physio_id = 7 :: nat, physio_name = ''Ana'',
    physio_specialty = ''Ortopedia'', physio_price = 120 :: nat\<rparr>"
  define u where "u = \<lparr>user_id = 42 :: nat\<rparr>"
  define s where "s = initial_screen\<lparr>selectedDate := ''2025-03-10'',
    selectedTime := ''09:00'', consultationType := online\<rparr>"
  define r where "r = \<lparr>patientId = 42 :: nat, physiotherapistId = 7 :: nat,
    physiotherapistName = ''Ana'', date = ''2025-03-10'', time = ''09:00'', type = online,
    specialty = ''Ortopedia'', address = None, city = None, state = None,
    price = 120 :: nat, notes_field = []\<rparr>"
  define taken where "taken = (\<lambda>r :: (nat, nat, nat) consultation.
    Resolved \<lparr>success = False, error = Some ''slot taken''\<rparr>)"
  define broken where "broken = (\<lambda>r :: (nat, nat, nat) consultation. Rejected)"
  have valid: "canSubmit_spec s"
    by (simp add: s_def initial_screen_def canSubmit_spec_def)
  have sync: "handleBooking_sync p (Some u) s =
      ([SetIsLoading True, GetCurrentUser, BookConsultation r], s\<lparr>isLoading := True\<rparr>, Awaiting r)"
    by (simp add: handleBooking_sync_def s_def initial_screen_def p_def u_def r_def
        setIsLoading_def Let_def)
  have t: "taken r = Rejected \<or> (\<exists>res. taken r = Resolved res \<and> \<not> success res)"
    by (simp add: taken_def)
  have b: "broken r = Rejected \<or> (\<exists>res. broken r = Resolved res \<and> \<not> success res)"
    by (simp add: broken_def)
  from failed_submission [where port = taken, OF valid sync t]
    failed_submission [where port = broken, OF valid sync b] valid
  have "canSubmit_spec s \<and>
       handleBooking p (Some u) taken s =
         ([SetIsLoading True, GetCurrentUser, BookConsultation r, Alert ''slot taken'',
           SetIsLoading False], s\<lparr>isLoading := False\<rparr>) \<and>
       handleBooking p (Some u) broken s =
         ([SetIsLoading True, GetCurrentUser, BookConsultation r, Alert msg_unexpected_error,
           SetIsLoading False], s\<lparr>isLoading := False\<rparr>)"
    by (simp add: taken_def broken_def)
  then show ?thesis
    by (simp add: Let_def p_def u_def s_def r_def taken_def broken_def)
qed

text \<open>
  Claim C8 as stated fails where the port's message is present and empty: the port
  answers \<open>{success: false, error: ""}\<close> and the alert shows the generic text, not
  the port's message.
\<close>

theorem empty_error_message_counterexample:
  "fst (handleBooking
     \<lparr>physio_id = 7 :: nat, physio_name = ''Ana'', physio_specialty = ''Ortopedia'',
      physio_price = 120 :: nat\<rparr>
     (Some \<lparr>user_id = 42 :: nat\<rparr>)
     (\<lambda>r. Resolved \<lparr>success = False, error = Some []\<rparr>)
     (initial_screen\<lparr>selectedDate := ''2025-03-10'', selectedTime := ''09:00'',
        consultationType := online\<rparr>))
   = [SetIsLoading True, GetCurrentUser,
      BookConsultation
        \<lparr>patientId = 42, physiotherapistId = 7, physiotherapistName = ''Ana'',
         date = ''2025-03-10'', time = ''09:00'', type = online, specialty = ''Ortopedia'',
         address = None, city = None, state = None, price = 120, notes_field = []\<rparr>,
      Alert ''Erro ao agendar consulta'', SetIsLoading False]"
  by (simp add: handleBooking_def handleBooking_sync_def handleBooking_resume_def
      initial_screen_def msg_booking_error_def Let_def)

subsection \<open>Switching the mode\<close>

text \<open>
  Claim C9. Switching the mode changes the mode and nothing else: after any sequence
  of switches the five parts of the address are what they were, and a draft for a home
  visit switched to online and back is the draft it was.
\<close>

theorem mode_switch_keeps_address:
  "addressStreet (fold setConsultationType ms s) = addressStreet s \<and>
   addressNumber (fold setConsultationType ms s) = addressNumber s \<and>
   addressNeighborhood (fold setConsultationType ms s) = addressNeighborhood s \<and>
   addressCity (fold setConsultationType ms s) = addressCity s \<and>
   addressState (fold setConsultationType ms s) = addressState s \<and>
   setConsultationType presencial (setConsultationType online s) =
     s\<lparr>consultationType := presencial\<rparr>"
proof -
  have "addressStreet (fold setConsultationType ms s) = addressStreet s \<and>
   addressNumber (fold setConsultationType ms s) = addressNumber s \<and>
   addressNeighborhood (fold setConsultationType ms s) = addressNeighborhood s \<and>
   addressCity (fold setConsultationType ms s) = addressCity s \<and>
   addressState (fold setConsultationType ms s) = addressState s"
    by (induction ms arbitrary: s) (simp_all add: setConsultationType_def)
  then show ?thesis
    by (simp add: setConsultationType_def)
qed

subsection \<open>The address of a home visit\<close>

text \<open>
  Claim C10. For a home visit that passes the guards, the request's address is one
  string, the street, \<open>", "\<close>, the number, \<open>" - "\<close> and the neighbourhood; the city and
  the state travel as fields of their own.
\<close>

theorem home_visit_address:
  assumes "consultationType s = presencial"
    and "canSubmit_spec s"
  shows "map address (port_calls (fst (handleBooking_sync p (Some u) s))) =
           [Some (addressStreet s @ '', '' @ addressNumber s @ '' - '' @ addressNeighborhood s)] \<and>
         map city (port_calls (fst (handleBooking_sync p (Some u) s))) = [Some (addressCity s)] \<and>
         map state (port_calls (fst (handleBooking_sync p (Some u) s))) = [Some (addressState s)]"
  using assms
  by (simp add: handleBooking_sync_def canSubmit_spec_def Let_def)

theorem home_visit_address_witness:
  "(let p = \<lparr>physio_id = 7 :: nat, physio_name = ''Ana'', physio_specialty = ''Ortopedia'',
              physio_price = 120 :: nat\<rparr>;
        u = \<lparr>user_id = 42 :: nat\<rparr>;
        s = initial_screen\<lparr>selectedDate := ''2025-03-10'', selectedTime := ''09:00'',
              addressStreet := ''Rua das Flores'', addressNumber := ''10'',
              addressNeighborhood := ''Centro'', addressCity := ''Porto Alegre'',
              addressState := ''RS''\<rparr>
    in consultationType s = presencial \<and> canSubmit_spec s \<and>
       map address (port_calls (fst (handleBooking_sync p (Some u) s))) =
         [Some ''Rua das Flores, 10 - Centro''] \<and>
       map city (port_calls (fst (handleBooking_sync p (Some u) s))) = [Some ''Porto Alegre''] \<and>
       map state (port_calls (fst (handleBooking_sync p (Some u) s))) = [Some ''RS''])"
proof -
  define p where "p = \<lparr>physio_id = 7 :: nat, physio_name = ''Ana'',
    physio_specialty = ''Ortopedia'', physio_price = 120 :: nat\<rparr>"
  define u where "u = \<lparr>user_id = 42 :: nat\<rparr>"
  define s where "s = initial_screen\<lparr>selectedDate := ''2025-03-10'',
    selectedTime := ''09:00'', addressStreet := ''Rua das Flores'', addressNumber := ''10'',
    addressNeighborhood := ''Centro'', addressCity := ''Porto Alegre'',
    addressState := ''RS''\<rparr>"
  have home: "consultationType s = presencial"
    by (simp add: s_def initial_screen_def)
  have valid: "canSubmit_spec s"
    by (simp add: s_def initial_screen_def canSubmit_spec_def)
  have fields: "addressStreet s = ''Rua das Flores''" "addressNumber s = ''10''"
    "addressNeighborhood s = ''Centro''" "addressCity s = ''Porto Alegre''"
    "addressState s = ''RS''"
    by (simp_all add: s_def)
  from home_visit_address [OF home valid, of p u] home valid fields
  have "consultationType s = presencial \<and> canSubmit_spec s \<and>
       map address (port_calls (fst (handleBooking_sync p (Some u) s))) =
         [Some ''Rua das Flores, 10 - Centro''] \<and>
       map city (port_calls (fst (handleBooking_sync p (Some u) s))) = [Some ''Porto Alegre''] \<and>
       map state (port_calls (fst (handleBooking_sync p (Some u) s))) = [Some ''RS'']"
    by simp
  then show ?thesis
    by (simp add: Let_def p_def u_def s_def)
qed

subsection \<open>The days offered\<close>

lemma getNextDays_loop_done:
  assumes "count < i"
  shows "getNextDays_loop clock tza fmt count i days = Inr days"
  using assms by (subst getNextDays_loop.simps) simp

lemma getNextDays_loop_step:
  assumes "i \<le> count"
    and "setDate tza (clock i) (getDate tza (clock i) + i) = Some t"
  shows "getNextDays_loop clock tza fmt count i days =
           getNextDays_loop clock tza fmt count (i + 1)
             (days @ [\<lparr>day_value = toISOString_date t,
                        day_label = fmt (civil_from_days (Day (t + tza)))\<rparr>])"
  using assms by (subst getNextDays_loop.simps) simp

lemma getNextDays_loop_length:
  assumes "getNextDays_loop clock tza fmt count i days = Inr ds"
  shows "length ds = length days + nat (count + 1 - i)"
  using assms
proof (induction clock tza fmt count i days rule: getNextDays_loop.induct)
  case (1 clock tza fmt count i days)
  show ?case
  proof (cases "i \<le> count")
    case False
    with "1.prems" show ?thesis
      by (simp add: getNextDays_loop_done)
  next
    case True
    show ?thesis
    proof (cases "setDate tza (clock i) (getDate tza (clock i) + i)")
      case None
      with True "1.prems" show ?thesis
        by (subst (asm) getNextDays_loop.simps) simp
    next
      case (Some t)
      from "1.prems" getNextDays_loop_step [where clock = clock, OF True Some]
      have "getNextDays_loop clock tza fmt count (i + 1)
              (days @ [\<lparr>day_value = toISOString_date t,
                         day_label = fmt (civil_from_days (Day (t + tza)))\<rparr>]) = Inr ds"
        by simp
      from "1.IH" [OF True Some this] True show ?thesis
        by simp
    qed
  qed
qed

text \<open>When no date leaves the range of time values, the array has \<open>count\<close> entries.\<close>

lemma getNextDays_length:
  assumes "getNextDays clock tza fmt count = Inr ds"
  shows "length ds = nat count"
  using getNextDays_loop_length [of clock tza fmt count 1 "[]" ds] assms
  by (simp add: getNextDays_def)

text \<open>
  Claim C4, at an input where the code departs from it. The consumer is three hours
  behind UTC and the clock reads 2025-03-09 22:00 local time (2025-03-10T01:00Z). The
  one entry of \<open>getNextDays(1)\<close> has the label of the local date 2025-03-10, the
  reference date plus one day, and the value \<open>2025-03-11\<close>, which is the date of the
  same instant in UTC.
\<close>

theorem getNextDays_value_is_utc_date:
  "civil_from_days (Day (1741568400000 + - 10800000)) = (2025, 3, 9) \<and>
   getNextDays (\<lambda>i. 1741568400000) (- 10800000) fmt 1 =
     Inr [\<lparr>day_value = ''2025-03-11'', day_label = fmt (2025, 3, 10)\<rparr>]"
proof -
  have today: "civil_from_days (Day (1741568400000 + - 10800000)) = (2025, 3, 9)"
    by code_simp
  have moved: "setDate (- 10800000) 1741568400000 (getDate (- 10800000) 1741568400000 + 1)
      = Some 1741654800000"
    by code_simp
  have iso: "toISOString_date 1741654800000 = ''2025-03-11''"
    by code_simp
  have local: "civil_from_days (Day (1741654800000 + - 10800000)) = (2025, 3, 10)"
    by code_simp
  have "getNextDays (\<lambda>i. 1741568400000) (- 10800000) fmt 1 =
      getNextDays_loop (\<lambda>i. 1741568400000) (- 10800000) fmt 1 (1 + 1)
        [\<lparr>day_value = ''2025-03-11'', day_label = fmt (2025, 3, 10)\<rparr>]"
    unfolding getNextDays_def
    using getNextDays_loop_step [where clock = "\<lambda>i. 1741568400000" and i = 1 and count = 1
        and tza = "- 10800000" and t = 1741654800000 and fmt = fmt and days = "[]"]
      moved iso local
    by simp
  also have "\<dots> = Inr [\<lparr>day_value = ''2025-03-11'', day_label = fmt (2025, 3, 10)\<rparr>]"
    by (rule getNextDays_loop_done) simp
  finally show ?thesis
    using today by simp
qed

text \<open>
  Claim C6, as the code has it. With a count of zero the loop does not run and the
  result is the empty array; with a negative count it does not run either, and the
  result is the empty array as well: the function checks nothing about its argument
  and throws nothing.
\<close>

theorem getNextDays_nonpositive_count:
  assumes "count \<le> 0"
  shows "getNextDays clock tza fmt count = Inr []"
  unfolding getNextDays_def
  using assms by (intro getNextDays_loop_done) simp

theorem getNextDays_nonpositive_count_witness:
  "(0 :: int) \<le> 0 \<and>
   getNextDays (\<lambda>i. 1741568400000) (- 10800000) (\<lambda>d. []) 0 = Inr []"
  using getNextDays_nonpositive_count [of 0 "\<lambda>i. 1741568400000" "- 10800000" "\<lambda>d. []"]
  by simp

text \<open>
  Claim C6 as stated fails for a negative count: \<open>getNextDays(-1)\<close> returns the empty
  array and raises no error.
\<close>

theorem getNextDays_negative_count_counterexample:
  "getNextDays (\<lambda>i. 1741568400000) (- 10800000) (\<lambda>d. []) (- 1) = Inr []"
  unfolding getNextDays_def
  by (subst getNextDays_loop.simps) simp

end
